theory Spec2Isabelle
  imports Complex_Main "HOL-Library.Multiset"
begin

section \<open>Data model of daily\_report.py\<close>

text \<open>
  The news table is a pandas DataFrame read from a CSV file. A cell of a text column
  holds a string or, where the CSV field was empty, the float \<open>nan\<close>. The two time
  columns are held as the result of
  \<^verbatim>\<open>pd.to_datetime(col, errors="coerce", utc=True)\<close>: a point in time in
  nanoseconds since the epoch, or \<open>None\<close> for \<open>NaT\<close> (a missing or unparseable
  value). A frame lists its column names beside its rows; a field of a row means
  something only when its column is among them.
\<close>

datatype cell = Str string | NaN

record item =
  link :: cell
  title :: cell
  summary :: cell
  feed_name :: cell
  published :: "int option"
  fetched_at :: "int option"

record 'r frame =
  columns :: "string list"
  rows :: "'r list"

datatype error = KeyError | AttributeError | ValueError | TypeError

text \<open>\<^verbatim>\<open>df.empty\<close>: some axis of the frame has length zero.\<close>

definition empty_frame :: "'r frame \<Rightarrow> bool" where
  "empty_frame df \<longleftrightarrow> rows df = [] \<or> columns df = []"

text \<open>
  Python's \<^verbatim>\<open>str(x)\<close>, also inside a formatted string: the float nan prints as
  "nan".
\<close>

definition py_str :: "cell \<Rightarrow> string" where
  "py_str c = (case c of Str s \<Rightarrow> s | NaN \<Rightarrow> ''nan'')"

text \<open>
  \<^verbatim>\<open>Series.astype(str)\<close> on a cell depends on the version of pandas, which the
  repository does not fix: up to version 2 a missing value becomes the text "nan",
  from version 3 on it stays missing (\<open>None\<close> here).
\<close>

datatype pandas_version = Pandas2 | Pandas3

definition series_astype_str :: "pandas_version \<Rightarrow> cell \<Rightarrow> string option" where
  "series_astype_str v c =
     (case c of
        Str s \<Rightarrow> Some s
      | NaN \<Rightarrow> (case v of Pandas2 \<Rightarrow> Some ''nan'' | Pandas3 \<Rightarrow> None))"

section \<open>The store of delivered links\<close>

text \<open>
  The file seen\_items.csv is represented by the set of texts written to it, one
  line each, \<open>None\<close> when the file does not exist or cannot be read.
  \<open>save_seen_links\<close> writes the set it is given. \<open>load_seen_links\<close> reads the file
  with \<^verbatim>\<open>pd.read_csv(...)["link"].dropna().astype(str)\<close>, which does not give back
  every text that was written: pandas reads its NA tokens, "nan" among them, as
  missing values, which \<^verbatim>\<open>dropna\<close> removes, and it reads a column of numbers as
  numbers. What the library reads from the texts of a file is the parameter
  \<open>reader\<close>.
\<close>

type_synonym seen_store = "string set option"

type_synonym csv_reader = "string set \<Rightarrow> string set"





text \<open>
  \<open>filter_unseen_items\<close> keeps the rows for which
  \<^verbatim>\<open>~links_today.isin(seen_links)\<close> holds; a link that is still missing after
  \<^verbatim>\<open>astype(str)\<close> is in no set.
\<close>

definition filter_unseen_items :: "pandas_version \<Rightarrow> item frame \<Rightarrow> string set \<Rightarrow> item frame" where
  "filter_unseen_items v df seen_links =
     (if ''link'' \<notin> set (columns df) then df
      else if seen_links = {} then df
      else df\<lparr>rows := filter
             (\<lambda>r. case series_astype_str v (link r) of
                    None \<Rightarrow> True
                  | Some l \<Rightarrow> l \<notin> seen_links) (rows df)\<rparr>)"

section \<open>Scoring one item\<close>

text \<open>
  \<^verbatim>\<open>str.strip()\<close> removes white space at both ends. Text is a list of 8-bit
  characters, so the white space is that of ASCII and the decimal digits that
  \<^verbatim>\<open>\d\<close> matches are \<open>0\<close> to \<open>9\<close>.
\<close>

definition is_space :: "char \<Rightarrow> bool" where
  "is_space c \<longleftrightarrow> c \<in> set [CHR 0x09, CHR 0x0A, CHR 0x0B, CHR 0x0C, CHR 0x0D,
     CHR 0x1C, CHR 0x1D, CHR 0x1E, CHR 0x1F, CHR 0x20]"

definition strip :: "string \<Rightarrow> string" where
  "strip s = rev (dropWhile is_space (rev (dropWhile is_space s)))"

definition is_digit :: "char \<Rightarrow> bool" where
  "is_digit c \<longleftrightarrow> c \<in> set ''0123456789''"

text \<open>
  \<^verbatim>\<open>re.findall(r"\d+", content)\<close>: the maximal runs of digits, left to right.
  The first argument is the run being read.
\<close>

fun findall_run :: "string \<Rightarrow> string \<Rightarrow> string list" where
  "findall_run run [] = (if run = [] then [] else [run])"
| "findall_run run (c # cs) =
     (if is_digit c then findall_run (run @ [c]) cs
      else (if run = [] then [] else [run]) @ findall_run [] cs)"

definition findall_digits :: "string \<Rightarrow> string list" where
  "findall_digits content = findall_run [] content"

text \<open>
  \<^verbatim>\<open>float(digits[0])\<close> on a string of decimal digits. The value is taken exactly:
  a float represents every integer up to 100 exactly and rounds a larger one to a
  float that is still larger than 100, so the clamp below returns the same number.
\<close>

definition digit_val :: "char \<Rightarrow> nat" where
  "digit_val c = of_char c - 48"

definition float_of_digits :: "string \<Rightarrow> real" where
  "float_of_digits ds = real (foldl (\<lambda>a c. 10 * a + digit_val c) 0 ds)"

text \<open>
  A row as \<^verbatim>\<open>to_dict(orient="records")\<close> hands it to the scorer: a dict from
  column names to cells (the four text columns the scorer reads).
  \<^verbatim>\<open>item.get(k, "") or ""\<close> gives the empty string for an absent key and
  leaves a cell as it is: the float nan is truthy.
\<close>

type_synonym record_dict = "string \<rightharpoonup> cell"

definition to_dict :: "string list \<Rightarrow> item \<Rightarrow> record_dict" where
  "to_dict cols r = (\<lambda>k.
     if k \<notin> set cols then None
     else if k = ''title'' then Some (title r)
     else if k = ''summary'' then Some (summary r)
     else if k = ''feed_name'' then Some (feed_name r)
     else if k = ''link'' then Some (link r)
     else None)"

definition get_or_empty :: "record_dict \<Rightarrow> string \<Rightarrow> cell" where
  "get_or_empty d k = (case d k of None \<Rightarrow> Str [] | Some c \<Rightarrow> c)"

text \<open>
  The scoring service sees the prompt, which is the fixed text with five values
  formatted into it, and answers with a text or fails. \<open>Raises\<close> stands for any
  exception inside the \<^verbatim>\<open>try\<close> block: a network error, an empty list of
  choices, a message without content.
\<close>

record prompt =
  p_user_profile :: string
  p_feed_name :: string
  p_title :: string
  p_content_snippet :: string
  p_link :: string

datatype reply = Raises | Content string

type_synonym client = "prompt \<Rightarrow> reply"

definition clamp_score :: "real \<Rightarrow> real" where
  "clamp_score score = max 0 (min 100 score)"

text \<open>
  Lines 185 to 211, before the \<^verbatim>\<open>try\<close> block: the fields are read and the
  prompt is formatted. \<^verbatim>\<open>summary.strip()\<close> raises AttributeError on a summary
  that is the float nan, and nothing catches it.
\<close>

definition build_prompt :: "string \<Rightarrow> record_dict \<Rightarrow> error + prompt" where
  "build_prompt profile d =
     (let title_c = get_or_empty d ''title'';
          summary_c = get_or_empty d ''summary'';
          feed_name_c = get_or_empty d ''feed_name'';
          link_c = get_or_empty d ''link''
      in case summary_c of
           NaN \<Rightarrow> Inl AttributeError
         | Str s \<Rightarrow>
             (let content_snippet = (if strip s \<noteq> [] then Str s else title_c)
              in Inr \<lparr>p_user_profile = profile, p_feed_name = py_str feed_name_c,
                      p_title = py_str title_c,
                      p_content_snippet = py_str content_snippet,
                      p_link = py_str link_c\<rparr>))"

text \<open>Lines 223 to 229: the first run of digits of the answer, clamped.\<close>

definition parse_score :: "string \<Rightarrow> real" where
  "parse_score raw =
     (case findall_digits (strip raw) of
        [] \<Rightarrow> 0
      | d0 # _ \<Rightarrow> clamp_score (float_of_digits d0))"

definition score_item_with_deepseek :: "client \<Rightarrow> string \<Rightarrow> record_dict \<Rightarrow> error + real" where
  "score_item_with_deepseek cl profile d =
     (case build_prompt profile d of
        Inl e \<Rightarrow> Inl e
      | Inr prompt \<Rightarrow>
          Inr (case cl prompt of
                 Raises \<Rightarrow> 0
               | Content raw \<Rightarrow> parse_score raw))"

section \<open>Sorting and truncating a frame\<close>

text \<open>
  \<^verbatim>\<open>df.sort_values(col, ascending=False)\<close> computes from the key column the
  positions of the rows in their new order and takes the rows in that order. The
  source leaves \<open>kind\<close> at its default, "quicksort", of which the library promises
  an ordering and nothing about rows with equal keys. The routine that computes the
  positions is therefore a parameter, and \<open>argsort_contract\<close> is what is known of
  it: the positions are a permutation, the keys along them never increase, and
  missing keys (NaN, NaT) stand last.
\<close>

type_synonym argsort = "real option list \<Rightarrow> nat list"

definition key_ge :: "real option \<Rightarrow> real option \<Rightarrow> bool" where
  "key_ge a b = (case b of None \<Rightarrow> True
                 | Some y \<Rightarrow> (case a of None \<Rightarrow> False | Some x \<Rightarrow> y \<le> x))"

definition argsort_contract :: "argsort \<Rightarrow> bool" where
  "argsort_contract srt \<longleftrightarrow>
     (\<forall>ks. mset (srt ks) = mset [0..<length ks] \<and>
           sorted_wrt key_ge (map ((!) ks) (srt ks)))"

definition sort_values :: "argsort \<Rightarrow> ('r \<Rightarrow> real option) \<Rightarrow> 'r list \<Rightarrow> 'r list" where
  "sort_values srt key rs = map ((!) rs) (srt (map key rs))"

text \<open>\<^verbatim>\<open>df.head(n)\<close> is \<^verbatim>\<open>df.iloc[:n]\<close>: a negative n drops the last rows.\<close>

definition head :: "int \<Rightarrow> 'r list \<Rightarrow> 'r list" where
  "head n rs = (if 0 \<le> n then take (nat n) rs else take (length rs - nat (- n)) rs)"

text \<open>
  A routine that meets the contract, by insertion of the positions one after the
  other, each behind the positions whose key is not smaller.
\<close>

fun insert_pos :: "(real option \<Rightarrow> real option \<Rightarrow> bool) \<Rightarrow> real option list \<Rightarrow> nat \<Rightarrow> nat list \<Rightarrow> nat list" where
  "insert_pos stays ks i [] = [i]"
| "insert_pos stays ks i (j # js) =
     (if stays (ks ! j) (ks ! i) then j # insert_pos stays ks i js else i # j # js)"

definition argsort_by :: "(real option \<Rightarrow> real option \<Rightarrow> bool) \<Rightarrow> argsort" where
  "argsort_by stays ks = foldl (\<lambda>acc i. insert_pos stays ks i acc) [] [0..<length ks]"

definition argsort_stable :: argsort where
  "argsort_stable = argsort_by key_ge"

section \<open>The recommendation step\<close>

text \<open>
  The settings are what \<^verbatim>\<open>yaml.safe_load\<close> makes of settings.yaml: a value of
  YAML's core types. A key that is written without a value holds null. Maps have
  text keys here; floats are the finite ones.
\<close>

datatype yaml =
    YNull
  | YBool bool
  | YInt int
  | YFloat real
  | YStr string
  | YList "yaml list"
  | YMap "(string \<times> yaml) list"

text \<open>
  Of the settings, the section "personalization" is kept as the YAML value it is
  (\<open>None\<close> when the key is absent), and \<open>days_window\<close> as the integer that
  \<^verbatim>\<open>settings["hot_topics"]["days_window"]\<close> holds (\<open>None\<close> when a key on that path is
  absent).
\<close>

record settings =
  personalization :: "yaml option"
  days_window :: "int option"

text \<open>\<^verbatim>\<open>d.get(key, default)\<close> on a dict.\<close>

definition py_get :: "(string \<times> yaml) list \<Rightarrow> string \<Rightarrow> yaml \<Rightarrow> yaml" where
  "py_get d k dflt = (case map_of d k of None \<Rightarrow> dflt | Some v \<Rightarrow> v)"

text \<open>The truth value that \<^verbatim>\<open>if not x\<close> tests.\<close>

fun truthy :: "yaml \<Rightarrow> bool" where
  "truthy YNull = False"
| "truthy (YBool b) = b"
| "truthy (YInt n) = (n \<noteq> 0)"
| "truthy (YFloat x) = (x \<noteq> 0)"
| "truthy (YStr s) = (s \<noteq> [])"
| "truthy (YList xs) = (xs \<noteq> [])"
| "truthy (YMap m) = (m \<noteq> [])"

text \<open>
  \<^verbatim>\<open>int(x)\<close>. A text must be, between white space, an optional sign and decimal
  digits, in which single underscores may stand between digits; anything else
  raises ValueError. (The limit that recent versions of Python put on the number of
  digits is left out.) A float is truncated towards zero. Null, a list and a map
  raise TypeError.
\<close>

fun digits_ok :: "bool \<Rightarrow> string \<Rightarrow> bool" where
  "digits_ok after_digit [] = after_digit"
| "digits_ok after_digit (c # cs) =
     (if is_digit c then digits_ok True cs
      else c = CHR ''_'' \<and> after_digit \<and> digits_ok False cs)"

definition int_of_text :: "string \<Rightarrow> error + int" where
  "int_of_text s =
     (let t = strip s;
          negative = (t \<noteq> [] \<and> hd t = CHR ''-'');
          body = (if t \<noteq> [] \<and> (hd t = CHR ''-'' \<or> hd t = CHR ''+'') then tl t else t)
      in if digits_ok False body
         then let n = int (foldl (\<lambda>a c. 10 * a + digit_val c) 0 (filter is_digit body))
              in Inr (if negative then - n else n)
         else Inl ValueError)"

fun py_int :: "yaml \<Rightarrow> error + int" where
  "py_int (YInt n) = Inr n"
| "py_int (YBool b) = Inr (if b then 1 else 0)"
| "py_int (YFloat x) = Inr (if 0 \<le> x then \<lfloor>x\<rfloor> else \<lceil>x\<rceil>)"
| "py_int (YStr s) = int_of_text s"
| "py_int YNull = Inl TypeError"
| "py_int (YList xs) = Inl TypeError"
| "py_int (YMap m) = Inl TypeError"






text \<open>
  The environment variable DEEPSEEK\_API\_KEY is absent or holds a string; the
  service is what the endpoint answers once a client exists.
\<close>

definition get_deepseek_client :: "string option \<Rightarrow> client \<Rightarrow> client option" where
  "get_deepseek_client api_key service =
     (case api_key of None \<Rightarrow> None | Some k \<Rightarrow> if k = [] then None else Some service)"

definition fillna :: "int option \<Rightarrow> int option \<Rightarrow> int option" where
  "fillna a b = (case a of None \<Rightarrow> b | Some t \<Rightarrow> Some t)"

definition effective_ts :: "item \<Rightarrow> int option" where
  "effective_ts r = fillna (published r) (fetched_at r)"

definition ts_key :: "item \<Rightarrow> real option" where
  "ts_key r = map_option real_of_int (effective_ts r)"

definition score_key :: "item \<times> real \<Rightarrow> real option" where
  "score_key p = Some (snd p)"

text \<open>\<^verbatim>\<open>df.assign(name=...)\<close> adds the column, or replaces it where it stands.\<close>

definition assign_column :: "string list \<Rightarrow> string \<Rightarrow> string list" where
  "assign_column cols c = (if c \<in> set cols then cols else cols @ [c])"

text \<open>Lines 264 to 273: newest first, then the first \<open>max_candidates\<close> rows.\<close>

definition select_candidates :: "argsort \<Rightarrow> int \<Rightarrow> item list \<Rightarrow> item list" where
  "select_candidates srt max_c rs = head max_c (sort_values srt ts_key rs)"

text \<open>
  \<^verbatim>\<open>list(executor.map(fn, items))\<close>: the results in the order of the items; the
  first item whose call raised makes the whole expression raise.
\<close>

fun collect_results :: "(error + 'b) list \<Rightarrow> error + 'b list" where
  "collect_results [] = Inr []"
| "collect_results (x # xs) =
     (case x of
        Inl e \<Rightarrow> Inl e
      | Inr v \<Rightarrow> (case collect_results xs of Inl e \<Rightarrow> Inl e | Inr vs \<Rightarrow> Inr (v # vs)))"

definition executor_map :: "('a \<Rightarrow> error + 'b) \<Rightarrow> 'a list \<Rightarrow> error + 'b list" where
  "executor_map fn items = collect_results (map fn items)"

text \<open>Lines 288 and 289: attach the scores, highest first, then the first \<open>top_n\<close> rows.\<close>

definition rank_candidates :: "argsort \<Rightarrow> int \<Rightarrow> item list \<Rightarrow> real list \<Rightarrow> (item \<times> real) list" where
  "rank_candidates srt n candidates scores =
     head n (sort_values srt score_key (zip candidates scores))"

text \<open>
  Lines 255 to 291, once the client exists: the three tunables are converted, then
  the table is looked at.
\<close>

definition score_and_rank ::
  "argsort \<Rightarrow> client \<Rightarrow> string \<Rightarrow> (string \<times> yaml) list \<Rightarrow> item frame \<Rightarrow>
     error + (item \<times> real) frame option" where
  "score_and_rank srt cl profile pers recent_df =
     (case py_int (py_get pers ''max_candidates'' (YInt 80)) of
        Inl e \<Rightarrow> Inl e
      | Inr max_c \<Rightarrow>
     (case py_int (py_get pers ''top_n'' (YInt 10)) of
        Inl e \<Rightarrow> Inl e
      | Inr n \<Rightarrow>
     (case py_int (py_get pers ''max_workers'' (YInt 30)) of
        Inl e \<Rightarrow> Inl e
      | Inr workers \<Rightarrow>
          if empty_frame recent_df then Inr None
          else if ''published'' \<notin> set (columns recent_df) then Inl KeyError
          else if ''fetched_at'' \<notin> set (columns recent_df) then Inl KeyError
          else
           (let cols = assign_column (columns recent_df) ''_ts'';
                candidates = select_candidates srt max_c (rows recent_df);
                items = map (to_dict cols) candidates
            in if workers \<le> 0 then Inl ValueError
               else case executor_map (score_item_with_deepseek cl profile) items of
                      Inl e \<Rightarrow> Inl e
                    | Inr scores \<Rightarrow>
                        Inr (Some \<lparr>columns = assign_column cols ''_personal_score'',
                                   rows = rank_candidates srt n candidates scores\<rparr>)))))"

text \<open>
  Lines 240 to 253. \<^verbatim>\<open>personalization.get\<close> raises AttributeError when the section
  is not a map, and \<^verbatim>\<open>.strip()\<close> when the profile is not a text; both stand before
  the API key is looked at.
\<close>

definition personalized_recommendations ::
  "argsort \<Rightarrow> string option \<Rightarrow> client \<Rightarrow> item frame \<Rightarrow> settings \<Rightarrow>
     error + (item \<times> real) frame option" where
  "personalized_recommendations srt api_key service recent_df st =
     (case (case personalization st of None \<Rightarrow> YMap [] | Some sec \<Rightarrow> sec) of
        YMap pers \<Rightarrow>
          if \<not> truthy (py_get pers ''enable'' (YBool False)) then Inr None
          else
           (case py_get pers ''user_profile'' (YStr []) of
              YStr u \<Rightarrow>
                if strip u = [] then Inr None
                else
                 (case get_deepseek_client api_key service of
                    None \<Rightarrow> Inr None
                  | Some cl \<Rightarrow> score_and_rank srt cl (strip u) pers recent_df)
            | _ \<Rightarrow> Inl AttributeError)
      | _ \<Rightarrow> Inl AttributeError)"

section \<open>The worker pool\<close>










section \<open>One run of the program\<close>





text \<open>
  What a run reads from outside: the news file (\<open>None\<close> when no news file exists),
  the file of seen links, the settings, the API key of the environment, the scoring
  service, the translator and the clock; and the pandas it runs on: its version and
  what its CSV reader makes of the file of seen links.
\<close>

record world =
  news_file :: "item frame option"
  seen_file :: seen_store
  pandas :: pandas_version
  reader :: csv_reader
  settings_file :: settings
  env_api_key :: "string option"
  service :: client
  translator :: "string \<Rightarrow> string"
  clock :: int





section \<open>Example data\<close>

text \<open>
  The columns that fetch\_feed.py writes, five rows of different age (the third
  without a parseable publication time, the fourth without any time), a scoring
  service that answers by the title of the row, and settings that ask for the best
  row only.
\<close>

definition news_columns :: "string list" where
  "news_columns = [''feed_id'', ''feed_name'', ''tags'', ''title'', ''link'', ''summary'',
     ''published'', ''fetched_at'']"

definition row_a :: item where
  "row_a = \<lparr>link = Str ''https://example.edu/a'', title = Str ''A'', summary = Str ''about a'',
     feed_name = Str ''Campus'', published = Some 5000, fetched_at = Some 9000\<rparr>"

definition row_b :: item where
  "row_b = \<lparr>link = Str ''https://example.edu/b'', title = Str ''B'', summary = Str ''about b'',
     feed_name = Str ''Campus'', published = Some 4000, fetched_at = Some 9000\<rparr>"

definition row_c :: item where
  "row_c = \<lparr>link = Str ''https://example.edu/c'', title = Str ''C'', summary = Str [],
     feed_name = Str ''Campus'', published = None, fetched_at = Some 3000\<rparr>"

definition row_d :: item where
  "row_d = \<lparr>link = Str ''https://example.edu/d'', title = Str ''D'', summary = Str ''about d'',
     feed_name = NaN, published = None, fetched_at = None\<rparr>"

definition row_e :: item where
  "row_e = \<lparr>link = Str ''https://example.edu/e'', title = Str ''E'', summary = Str ''about e'',
     feed_name = Str ''Campus'', published = Some 1000, fetched_at = Some 9000\<rparr>"

definition example_service :: client where
  "example_service p =
     (if p_title p = ''B'' then Content ''80''
      else if p_title p = ''C'' then Content ''Score: 40/100''
      else Raises)"

definition example_settings :: settings where
  "example_settings = \<lparr>personalization = Some (YMap [(''enable'', YBool True),
     (''user_profile'', YStr ''likes robots''), (''top_n'', YInt 1), (''max_workers'', YInt 2)]),
     days_window = Some 3\<rparr>"





section \<open>Facts about sorting\<close>

lemma key_ge_total: "key_ge a b \<or> key_ge b a"
  by (auto simp: key_ge_def split: option.splits)

lemma key_ge_trans: "key_ge a b \<Longrightarrow> key_ge b c \<Longrightarrow> key_ge a c"
  by (auto simp: key_ge_def split: option.splits)

lemma mset_insert_pos: "mset (insert_pos stays ks i js) = add_mset i (mset js)"
  by (induction js) auto

lemma set_insert_pos: "set (insert_pos stays ks i js) = insert i (set js)"
  by (induction js) auto

lemma sorted_insert_pos:
  assumes st: "\<forall>a b. (stays a b \<longrightarrow> key_ge a b) \<and> (\<not> stays a b \<longrightarrow> key_ge b a)"
  shows "sorted_wrt key_ge (map ((!) ks) js) \<Longrightarrow>
         sorted_wrt key_ge (map ((!) ks) (insert_pos stays ks i js))"
proof (induction js)
  case Nil
  then show ?case by simp
next
  case (Cons j js)
  show ?case
  proof (cases "stays (ks ! j) (ks ! i)")
    case True
    with Cons st show ?thesis
      by (auto simp: set_insert_pos)
  next
    case False
    then have "key_ge (ks ! i) (ks ! j)" using st by blast
    with Cons.prems False show ?thesis
      by (auto intro: key_ge_trans)
  qed
qed

lemma mset_foldl_insert_pos:
  "mset (foldl (\<lambda>acc i. insert_pos stays ks i acc) acc is) = mset acc + mset is"
  by (induction "is" arbitrary: acc) (auto simp: mset_insert_pos)

lemma sorted_foldl_insert_pos:
  assumes st: "\<forall>a b. (stays a b \<longrightarrow> key_ge a b) \<and> (\<not> stays a b \<longrightarrow> key_ge b a)"
  shows "sorted_wrt key_ge (map ((!) ks) acc) \<Longrightarrow>
         sorted_wrt key_ge (map ((!) ks) (foldl (\<lambda>acc i. insert_pos stays ks i acc) acc is))"
proof (induction "is" arbitrary: acc)
  case Nil
  then show ?case by simp
next
  case (Cons i "is")
  have "sorted_wrt key_ge (map ((!) ks) (insert_pos stays ks i acc))"
    using st Cons.prems by (rule sorted_insert_pos)
  then show ?case using Cons.IH by simp
qed

lemma argsort_by_contract:
  assumes st: "\<forall>a b. (stays a b \<longrightarrow> key_ge a b) \<and> (\<not> stays a b \<longrightarrow> key_ge b a)"
  shows "argsort_contract (argsort_by stays)"
proof -
  have "sorted_wrt key_ge (map ((!) ks) (argsort_by stays ks))" for ks
    unfolding argsort_by_def by (rule sorted_foldl_insert_pos [OF st]) simp
  moreover have "mset (argsort_by stays ks) = mset [0..<length ks]" for ks
    by (simp add: argsort_by_def mset_foldl_insert_pos)
  ultimately show ?thesis by (simp add: argsort_contract_def)
qed

lemma argsort_stable_contract: "argsort_contract argsort_stable"
  unfolding argsort_stable_def
  by (rule argsort_by_contract) (use key_ge_total in auto)

lemma contract_mset: "argsort_contract srt \<Longrightarrow> mset (srt ks) = mset [0..<length ks]"
  by (simp add: argsort_contract_def)

lemma contract_set: "argsort_contract srt \<Longrightarrow> set (srt ks) = {0..<length ks}"
  using contract_mset [of srt ks] by (metis set_mset_mset set_upt)

lemma mset_sort_values:
  assumes "argsort_contract srt"
  shows "mset (sort_values srt key rs) = mset rs"
proof -
  have "mset (srt (map key rs)) = mset [0..<length rs]"
    using contract_mset [OF assms, of "map key rs"] by simp
  then have "image_mset ((!) rs) (mset (srt (map key rs)))
      = image_mset ((!) rs) (mset [0..<length rs])"
    by simp
  then have "mset (map ((!) rs) (srt (map key rs))) = mset (map ((!) rs) [0..<length rs])"
    by simp
  then show ?thesis
    by (simp add: sort_values_def map_nth)
qed

lemma length_sort_values: "argsort_contract srt \<Longrightarrow> length (sort_values srt key rs) = length rs"
  using mset_sort_values [of srt key rs] by (metis size_mset)

lemma set_sort_values: "argsort_contract srt \<Longrightarrow> set (sort_values srt key rs) = set rs"
  using mset_sort_values [of srt key rs] by (metis set_mset_mset)

lemma keys_sort_values:
  assumes "argsort_contract srt"
  shows "map key (sort_values srt key rs) = map ((!) (map key rs)) (srt (map key rs))"
  using contract_set [OF assms, of "map key rs"]
  by (auto simp: sort_values_def)

lemma sorted_sort_values:
  assumes "argsort_contract srt"
  shows "sorted_wrt key_ge (map key (sort_values srt key rs))"
  using assms keys_sort_values [OF assms, of key rs]
  by (simp add: argsort_contract_def)

section \<open>Facts about the worker pool\<close>






lemma collect_results_Inr:
  "collect_results xs = Inr vs \<Longrightarrow> xs = map Inr vs"
  by (induction xs arbitrary: vs) (auto split: sum.splits)

lemma executor_map_Inr:
  assumes "executor_map fn items = Inr vs"
  shows "length vs = length items" "i < length items \<Longrightarrow> fn (items ! i) = Inr (vs ! i)"
proof -
  from assms have m: "map fn items = map Inr vs"
    by (simp add: executor_map_def collect_results_Inr)
  then show l: "length vs = length items" by (metis length_map)
  show "fn (items ! i) = Inr (vs ! i)" if "i < length items"
    using m l that by (metis nth_map)
qed

section \<open>Properties\<close>

text \<open>
  C10. When the table has no \<open>link\<close> column, \<open>filter_unseen_items\<close> does no
  deduplication: it returns the table it was given, every row retained, whatever
  the set of seen links is. The function has no failing branch.
\<close>

theorem filter_unseen_items_no_link_column:
  "''link'' \<notin> set (columns df) \<Longrightarrow> filter_unseen_items v df seen_links = df"
  by (simp add: filter_unseen_items_def)

theorem filter_unseen_items_no_link_column_witness:
  "filter_unseen_items Pandas2
     \<lparr>columns = [''title''], rows = [\<lparr>link = Str ''u1'', title = Str ''t'', summary = NaN,
        feed_name = NaN, published = None, fetched_at = None\<rparr>]\<rparr> {''u1''}
   = \<lparr>columns = [''title''], rows = [\<lparr>link = Str ''u1'', title = Str ''t'', summary = NaN,
        feed_name = NaN, published = None, fetched_at = None\<rparr>]\<rparr>"
  using filter_unseen_items_no_link_column
    [of "\<lparr>columns = [''title''], rows = [\<lparr>link = Str ''u1'', title = Str ''t'', summary = NaN,
        feed_name = NaN, published = None, fetched_at = None\<rparr>]\<rparr>" Pandas2 "{''u1''}"]
  by simp

subsection \<open>Scoring\<close>

lemmas score_defs = score_item_with_deepseek_def build_prompt_def get_or_empty_def to_dict_def
  parse_score_def strip_def is_space_def findall_digits_def is_digit_def
  float_of_digits_def digit_val_def clamp_score_def py_str_def

lemmas frame_defs = personalized_recommendations_def score_and_rank_def py_get_def
  get_deepseek_client_def empty_frame_def assign_column_def select_candidates_def
  rank_candidates_def sort_values_def head_def executor_map_def ts_key_def score_key_def
  effective_ts_def fillna_def argsort_stable_def argsort_by_def key_ge_def

lemma clamp_score_range: "0 \<le> clamp_score x \<and> clamp_score x \<le> 100"
  by (simp add: clamp_score_def)

lemma parse_score_range: "0 \<le> parse_score raw \<and> parse_score raw \<le> 100"
  using clamp_score_range by (simp add: parse_score_def split: list.splits)

lemma build_prompt_Inl:
  "build_prompt profile d = Inl e \<Longrightarrow> e = AttributeError \<and> d ''summary'' = Some NaN"
  by (auto simp: build_prompt_def get_or_empty_def Let_def split: cell.splits option.splits)

lemma findall_run_no_digit:
  "\<forall>c\<in>set pre. \<not> is_digit c \<Longrightarrow> findall_run [] (pre @ s) = findall_run [] s"
  by (induction pre) auto

lemma findall_run_digits:
  "\<forall>c\<in>set ds. is_digit c \<Longrightarrow> findall_run run (ds @ s) = findall_run (run @ ds) s"
  by (induction ds arbitrary: run) auto

lemma findall_run_stop:
  "run \<noteq> [] \<Longrightarrow> s = [] \<or> \<not> is_digit (hd s) \<Longrightarrow> \<exists>more. findall_run run s = run # more"
  by (cases s) auto

text \<open>
  What the answer is parsed to, for an item whose prompt can be built: 0 when the
  call raises, 0 when the answer holds no digit, and otherwise the clamped value of
  the first maximal run of digits, whatever text stands around it.
\<close>

lemma findall_digits_first:
  assumes "\<forall>c\<in>set pre. \<not> is_digit c" "ds \<noteq> []" "\<forall>c\<in>set ds. is_digit c"
    "post = [] \<or> \<not> is_digit (hd post)"
  shows "\<exists>more. findall_digits (pre @ ds @ post) = ds # more"
  using assms findall_run_stop [of ds post]
  by (simp add: findall_digits_def findall_run_no_digit findall_run_digits)

lemma findall_digits_none:
  "\<forall>c\<in>set s. \<not> is_digit c \<Longrightarrow> findall_digits s = []"
  using findall_run_no_digit [of s "[]"] by (simp add: findall_digits_def)

lemma parse_score_first_token:
  assumes "strip raw = pre @ ds @ post" "\<forall>c\<in>set pre. \<not> is_digit c" "ds \<noteq> []"
    "\<forall>c\<in>set ds. is_digit c" "post = [] \<or> \<not> is_digit (hd post)"
  shows "parse_score raw = clamp_score (float_of_digits ds)"
  using findall_digits_first [OF assms(2-5)] assms(1)
  by (auto simp: parse_score_def)

lemma parse_score_no_token:
  "\<forall>c\<in>set (strip raw). \<not> is_digit c \<Longrightarrow> parse_score raw = 0"
  by (simp add: parse_score_def findall_digits_none)

lemma score_item_call_raises:
  "build_prompt profile d = Inr pr \<Longrightarrow> cl pr = Raises \<Longrightarrow>
   score_item_with_deepseek cl profile d = Inr 0"
  by (simp add: score_item_with_deepseek_def)

lemma score_item_call_answers:
  "build_prompt profile d = Inr pr \<Longrightarrow> cl pr = Content raw \<Longrightarrow>
   score_item_with_deepseek cl profile d = Inr (parse_score raw)"
  by (simp add: score_item_with_deepseek_def)

text \<open>
  C2. Score bound: whatever the profile, the item and the answer of the scoring
  service are (a number out of range, no number, a number inside other text) and
  also when the call raises, a value that \<open>score_item_with_deepseek\<close> returns lies
  in the closed interval from 0 to 100. It returns a value for every item but one
  whose summary is the float nan, where building the prompt raises AttributeError.
\<close>

theorem score_bound:
  "(\<forall>s. score_item_with_deepseek cl profile d = Inr s \<longrightarrow> 0 \<le> s \<and> s \<le> 100) \<and>
   (\<forall>e. score_item_with_deepseek cl profile d = Inl e \<longrightarrow>
      e = AttributeError \<and> d ''summary'' = Some NaN)"
  using parse_score_range
  by (auto simp: score_item_with_deepseek_def split: sum.splits reply.splits
      dest: build_prompt_Inl)

theorem score_bound_witness:
  "(\<exists>s. score_item_with_deepseek (\<lambda>p. Content ''I would say 250 points'') ''likes robots''
          (to_dict news_columns row_b) = Inr s \<and> 0 \<le> s \<and> s \<le> 100) \<and>
   score_item_with_deepseek (\<lambda>p. Content ''I would say 250 points'') ''likes robots''
     (to_dict news_columns row_b) = Inr 100 \<and>
   score_item_with_deepseek (\<lambda>p. Raises) ''likes robots'' (to_dict news_columns row_b) = Inr 0 \<and>
   score_item_with_deepseek (\<lambda>p. Content ''85'') ''likes robots''
     (to_dict news_columns (row_b\<lparr>summary := NaN\<rparr>)) = Inl AttributeError \<and>
   to_dict news_columns (row_b\<lparr>summary := NaN\<rparr>) ''summary'' = Some NaN"
  using score_bound [of "\<lambda>p. Content ''I would say 250 points''" "''likes robots''"
      "to_dict news_columns row_b"]
    score_bound [of "\<lambda>p. Content ''85''" "''likes robots''"
      "to_dict news_columns (row_b\<lparr>summary := NaN\<rparr>)"]
  by (simp add: score_defs news_columns_def row_b_def)

text \<open>
  C7. Scoring failure isolation says that \<open>score_item_with_deepseek\<close> never lets an
  exception out. It does for a row whose summary field was empty in the CSV file and
  is therefore the float nan: \<^verbatim>\<open>summary.strip()\<close> raises AttributeError before the
  \<^verbatim>\<open>try\<close> block is entered, and the exception ends the whole recommendation
  step. The other parts of the claim hold for an item whose prompt can be built, as
  the lemmas above show.
\<close>

theorem score_item_nan_summary_raises:
  "score_item_with_deepseek (\<lambda>p. Content ''85'') ''likes robots''
     (to_dict [''feed_name'', ''title'', ''link'', ''summary'', ''published'', ''fetched_at'']
        \<lparr>link = Str ''https://example.edu/a'', title = Str ''Robots on campus'',
          summary = NaN, feed_name = Str ''MIT News'', published = None,
          fetched_at = Some 1000\<rparr>) = Inl AttributeError \<and>
   personalized_recommendations argsort_stable (Some ''key'') (\<lambda>p. Content ''85'')
     \<lparr>columns = [''feed_name'', ''title'', ''link'', ''summary'', ''published'', ''fetched_at''],
      rows = [\<lparr>link = Str ''https://example.edu/a'', title = Str ''Robots on campus'',
          summary = NaN, feed_name = Str ''MIT News'', published = None,
          fetched_at = Some 1000\<rparr>]\<rparr>
     \<lparr>personalization = Some (YMap [(''enable'', YBool True),
        (''user_profile'', YStr ''likes robots'')]), days_window = Some 3\<rparr>
   = Inl AttributeError"
  by (simp add: score_defs frame_defs)

subsection \<open>Configuration\<close>

lemmas example_defs = news_columns_def row_a_def row_b_def row_c_def row_d_def row_e_def
  example_service_def example_settings_def




subsection \<open>Selecting and ranking\<close>

lemma length_head: "0 \<le> n \<Longrightarrow> length (head n rs) = min (nat n) (length rs)"
  by (simp add: head_def)

lemma head_is_take: "\<exists>k. head n rs = take k rs"
  by (auto simp: head_def)

lemma mset_head: "mset (head n rs) \<subseteq># mset rs"
proof -
  have "mset (take k rs) \<subseteq># mset rs" for k
    by (metis append_take_drop_id mset_append mset_subset_eq_add_left)
  then show ?thesis by (simp add: head_def)
qed

lemma sorted_wrt_head: "sorted_wrt R rs \<Longrightarrow> sorted_wrt R (head n rs)"
  by (simp add: head_def sorted_wrt_take)

lemma sorted_keys_take_drop:
  assumes "sorted_wrt key_ge (map key rs)"
  shows "\<forall>x\<in>set (take k rs). \<forall>y\<in>set (drop k rs). key_ge (key x) (key y)"
proof -
  have "sorted_wrt key_ge (map key (take k rs) @ map key (drop k rs))"
    using assms by (metis append_take_drop_id map_append)
  then show ?thesis by (auto simp: sorted_wrt_append)
qed

lemma mset_minus_take: "mset rs - mset (take k rs) = mset (drop k rs)"
  by (metis add_diff_cancel_left' append_take_drop_id mset_append)

lemma newest_kept:
  assumes "argsort_contract srt"
  shows "\<forall>x\<in>set (select_candidates srt m rs).
           \<forall>y\<in>#(mset rs - mset (select_candidates srt m rs)). key_ge (ts_key x) (ts_key y)"
proof -
  let ?S = "sort_values srt ts_key rs"
  obtain k where k: "select_candidates srt m rs = take k ?S"
    using head_is_take [of m ?S] by (auto simp: select_candidates_def)
  have "mset rs - mset (take k ?S) = mset (drop k ?S)"
    using mset_minus_take [of ?S k] mset_sort_values [OF assms, of ts_key rs] by simp
  then show ?thesis
    using sorted_keys_take_drop [OF sorted_sort_values [OF assms, of ts_key rs], of k] k
    by simp
qed

lemma newest_only:
  assumes "argsort_contract srt" "rs \<noteq> []"
  shows "\<exists>x. select_candidates srt 1 rs = [x] \<and> x \<in> set rs \<and>
             (\<forall>y\<in>set rs. key_ge (ts_key x) (ts_key y))"
proof -
  let ?S = "sort_values srt ts_key rs"
  have "length ?S = length rs" by (rule length_sort_values [OF assms(1)])
  with assms(2) obtain x xs where S: "?S = x # xs" by (cases ?S) auto
  have srt: "sorted_wrt key_ge (map ts_key (x # xs))"
    using sorted_sort_values [OF assms(1), of ts_key rs] S by simp
  have "set rs = set (x # xs)"
    using set_sort_values [OF assms(1), of ts_key rs] S by simp
  moreover have "key_ge (ts_key x) (ts_key x)" using key_ge_total by blast
  ultimately have "\<forall>y\<in>set rs. key_ge (ts_key x) (ts_key y)" "x \<in> set rs"
    using srt by auto
  moreover have "select_candidates srt 1 rs = [x]"
    using S by (simp add: select_candidates_def head_def)
  ultimately show ?thesis by blast
qed

lemma mset_select_candidates:
  "argsort_contract srt \<Longrightarrow> mset (select_candidates srt m rs) \<subseteq># mset rs"
  using mset_head [of m "sort_values srt ts_key rs"] mset_sort_values [of srt ts_key rs]
  by (simp add: select_candidates_def)

lemma length_rank_candidates:
  assumes "argsort_contract srt" "0 \<le> n" "length scores = length candidates"
  shows "length (rank_candidates srt n candidates scores) = min (nat n) (length candidates)"
  using assms by (simp add: rank_candidates_def length_head length_sort_values)

lemma mset_rank_candidates:
  "argsort_contract srt \<Longrightarrow>
   mset (rank_candidates srt n candidates scores) \<subseteq># mset (zip candidates scores)"
  using mset_head [of n "sort_values srt score_key (zip candidates scores)"]
    mset_sort_values [of srt score_key "zip candidates scores"]
  by (simp add: rank_candidates_def)

lemma rank_candidates_all:
  assumes "argsort_contract srt" "length scores = length candidates"
    "int (length candidates) \<le> n"
  shows "mset (rank_candidates srt n candidates scores) = mset (zip candidates scores)"
proof -
  let ?S = "sort_values srt score_key (zip candidates scores)"
  have "length ?S = length candidates"
    using assms(2) by (simp add: length_sort_values [OF assms(1)])
  with assms(3) have "head n ?S = ?S" by (simp add: head_def)
  then show ?thesis
    by (simp add: rank_candidates_def mset_sort_values [OF assms(1)])
qed

text \<open>What a report that the step returns was made of.\<close>

lemma score_and_rank_Some:
  assumes "score_and_rank srt cl profile pers df = Inr (Some rep)"
  shows "\<exists>max_c n scores.
           py_int (py_get pers ''max_candidates'' (YInt 80)) = Inr max_c \<and>
           py_int (py_get pers ''top_n'' (YInt 10)) = Inr n \<and>
           rows df \<noteq> [] \<and>
           executor_map (score_item_with_deepseek cl profile)
             (map (to_dict (assign_column (columns df) ''_ts''))
                (select_candidates srt max_c (rows df))) = Inr scores \<and>
           rows rep = rank_candidates srt n (select_candidates srt max_c (rows df)) scores \<and>
           columns rep
             = assign_column (assign_column (columns df) ''_ts'') ''_personal_score''"
  using assms
  by (auto simp: score_and_rank_def Let_def empty_frame_def split: sum.splits if_splits)

lemma personalized_recommendations_Some:
  assumes "personalized_recommendations srt api_key svc df st = Inr (Some rep)"
  shows "\<exists>pers u. personalization st = Some (YMap pers) \<and>
           py_get pers ''user_profile'' (YStr []) = YStr u \<and>
           score_and_rank srt svc (strip u) pers df = Inr (Some rep)"
  using assms
  by (auto simp: personalized_recommendations_def get_deepseek_client_def py_get_def
      split: option.splits yaml.splits if_splits)

lemma report_rows:
  assumes c: "argsort_contract srt"
    and run: "personalized_recommendations srt api_key svc df st = Inr (Some rep)"
    and sec: "personalization st = Some (YMap m)"
    and mc: "py_int (py_get m ''max_candidates'' (YInt 80)) = Inr max_c"
    and tn: "py_int (py_get m ''top_n'' (YInt 10)) = Inr n"
    and up: "py_get m ''user_profile'' (YStr []) = YStr u"
  shows "\<exists>scores.
           executor_map (score_item_with_deepseek svc (strip u))
             (map (to_dict (assign_column (columns df) ''_ts''))
                (select_candidates srt max_c (rows df))) = Inr scores \<and>
           length scores = length (select_candidates srt max_c (rows df)) \<and>
           rows rep = rank_candidates srt n (select_candidates srt max_c (rows df)) scores"
    and "rows df \<noteq> []"
proof -
  from personalized_recommendations_Some [OF run] sec up
  have "score_and_rank srt svc (strip u) m df = Inr (Some rep)" by auto
  from score_and_rank_Some [OF this] mc tn obtain scores where
    ne: "rows df \<noteq> []"
    and sc: "executor_map (score_item_with_deepseek svc (strip u))
             (map (to_dict (assign_column (columns df) ''_ts''))
                (select_candidates srt max_c (rows df))) = Inr scores"
    and rw: "rows rep = rank_candidates srt n (select_candidates srt max_c (rows df)) scores"
    by auto
  from executor_map_Inr(1) [OF sc]
  have "length scores = length (select_candidates srt max_c (rows df))" by simp
  with sc rw show "\<exists>scores.
           executor_map (score_item_with_deepseek svc (strip u))
             (map (to_dict (assign_column (columns df) ''_ts''))
                (select_candidates srt max_c (rows df))) = Inr scores \<and>
           length scores = length (select_candidates srt max_c (rows df)) \<and>
           rows rep = rank_candidates srt n (select_candidates srt max_c (rows df)) scores"
    by blast
  show "rows df \<noteq> []" by (rule ne)
qed

lemma zip_scores:
  assumes "executor_map fn (map f cands) = Inr scores" "(r, s) \<in> set (zip cands scores)"
  shows "fn (f r) = Inr s"
proof -
  from assms(2) obtain i where i: "i < length cands" "i < length scores"
    "cands ! i = r" "scores ! i = s"
    by (auto simp: set_zip)
  from executor_map_Inr(2) [OF assms(1), of i] i show ?thesis by simp
qed


text \<open>
  C6. Candidate selection, for every sort routine that meets the contract of
  \<open>sort_values\<close>. The effective time of a row is its publication time where that is
  present and parseable and its fetch time otherwise; the candidates stand newest
  first, a row without any time after every row with one; they are rows of the
  table; for a cap that is not negative there are as many as the smaller of the cap
  and the number of rows; no row left out is newer than a row kept; and with a cap
  of 1 the candidate is one row, whose time no other row of the table exceeds. And
  these candidates are what \<open>personalized_recommendations\<close> scores: when it returns a
  report, the scoring calls were made for the candidates selected from its table,
  every row of the report is one of them with the score of its own call, the
  report holds all of them when \<open>top_n\<close> is not smaller than their number, and with
  \<open>max_candidates\<close> = 1 the report is the single newest row of the table with its
  score.
\<close>

theorem candidate_selection:
  assumes "argsort_contract srt"
  shows "(\<forall>r. effective_ts r = (case published r of None \<Rightarrow> fetched_at r | Some t \<Rightarrow> Some t)) \<and>
         (\<forall>x y. key_ge (ts_key x) (ts_key y) \<longleftrightarrow>
            (case effective_ts y of
               None \<Rightarrow> True
             | Some ty \<Rightarrow> (case effective_ts x of None \<Rightarrow> False | Some tx \<Rightarrow> ty \<le> tx))) \<and>
         sorted_wrt key_ge (map ts_key (select_candidates srt m rs)) \<and>
         mset (select_candidates srt m rs) \<subseteq># mset rs \<and>
         (0 \<le> m \<longrightarrow> length (select_candidates srt m rs) = min (nat m) (length rs)) \<and>
         (\<forall>x\<in>set (select_candidates srt m rs).
            \<forall>y\<in>#(mset rs - mset (select_candidates srt m rs)). key_ge (ts_key x) (ts_key y)) \<and>
         (rs \<noteq> [] \<longrightarrow>
            (\<exists>x. select_candidates srt 1 rs = [x] \<and> x \<in> set rs \<and>
                 (\<forall>y\<in>set rs. key_ge (ts_key x) (ts_key y)))) \<and>
         (\<forall>sec max_c n u rep.
            personalization st = Some (YMap sec) \<and>
            py_int (py_get sec ''max_candidates'' (YInt 80)) = Inr max_c \<and>
            py_int (py_get sec ''top_n'' (YInt 10)) = Inr n \<and>
            py_get sec ''user_profile'' (YStr []) = YStr u \<and>
            personalized_recommendations srt api_key svc df st = Inr (Some rep) \<longrightarrow>
            (\<exists>scores.
               executor_map (score_item_with_deepseek svc (strip u))
                 (map (to_dict (assign_column (columns df) ''_ts''))
                    (select_candidates srt max_c (rows df))) = Inr scores \<and>
               rows rep = rank_candidates srt n (select_candidates srt max_c (rows df)) scores) \<and>
            mset (map fst (rows rep)) \<subseteq># mset (select_candidates srt max_c (rows df)) \<and>
            (\<forall>row\<in>set (rows rep).
               score_item_with_deepseek svc (strip u)
                 (to_dict (assign_column (columns df) ''_ts'') (fst row)) = Inr (snd row)) \<and>
            (int (length (select_candidates srt max_c (rows df))) \<le> n \<longrightarrow>
               mset (map fst (rows rep)) = mset (select_candidates srt max_c (rows df))) \<and>
            (max_c = 1 \<and> 0 < n \<longrightarrow>
               (\<exists>x s. rows rep = [(x, s)] \<and> x \<in> set (rows df) \<and>
                  (\<forall>y\<in>set (rows df). key_ge (ts_key x) (ts_key y)) \<and>
                  score_item_with_deepseek svc (strip u)
                    (to_dict (assign_column (columns df) ''_ts'') x) = Inr s)))"
proof (intro conjI)
  show "\<forall>r. effective_ts r = (case published r of None \<Rightarrow> fetched_at r | Some t \<Rightarrow> Some t)"
    by (simp add: effective_ts_def fillna_def)
  show "\<forall>x y. key_ge (ts_key x) (ts_key y) \<longleftrightarrow>
            (case effective_ts y of
               None \<Rightarrow> True
             | Some ty \<Rightarrow> (case effective_ts x of None \<Rightarrow> False | Some tx \<Rightarrow> ty \<le> tx))"
    by (simp add: key_ge_def ts_key_def split: option.splits)
  show "sorted_wrt key_ge (map ts_key (select_candidates srt m rs))"
    using sorted_sort_values [OF assms, of ts_key rs]
    by (simp add: select_candidates_def head_def sorted_wrt_take flip: take_map)
  show "mset (select_candidates srt m rs) \<subseteq># mset rs"
    by (rule mset_select_candidates [OF assms])
  show "0 \<le> m \<longrightarrow> length (select_candidates srt m rs) = min (nat m) (length rs)"
    by (simp add: select_candidates_def length_head length_sort_values [OF assms])
  show "\<forall>x\<in>set (select_candidates srt m rs).
            \<forall>y\<in>#(mset rs - mset (select_candidates srt m rs)). key_ge (ts_key x) (ts_key y)"
    by (rule newest_kept [OF assms])
  show "rs \<noteq> [] \<longrightarrow>
            (\<exists>x. select_candidates srt 1 rs = [x] \<and> x \<in> set rs \<and>
                 (\<forall>y\<in>set rs. key_ge (ts_key x) (ts_key y)))"
    using newest_only [OF assms] by blast
  show "\<forall>sec max_c n u rep.
            personalization st = Some (YMap sec) \<and>
            py_int (py_get sec ''max_candidates'' (YInt 80)) = Inr max_c \<and>
            py_int (py_get sec ''top_n'' (YInt 10)) = Inr n \<and>
            py_get sec ''user_profile'' (YStr []) = YStr u \<and>
            personalized_recommendations srt api_key svc df st = Inr (Some rep) \<longrightarrow>
            (\<exists>scores.
               executor_map (score_item_with_deepseek svc (strip u))
                 (map (to_dict (assign_column (columns df) ''_ts''))
                    (select_candidates srt max_c (rows df))) = Inr scores \<and>
               rows rep = rank_candidates srt n (select_candidates srt max_c (rows df)) scores) \<and>
            mset (map fst (rows rep)) \<subseteq># mset (select_candidates srt max_c (rows df)) \<and>
            (\<forall>row\<in>set (rows rep).
               score_item_with_deepseek svc (strip u)
                 (to_dict (assign_column (columns df) ''_ts'') (fst row)) = Inr (snd row)) \<and>
            (int (length (select_candidates srt max_c (rows df))) \<le> n \<longrightarrow>
               mset (map fst (rows rep)) = mset (select_candidates srt max_c (rows df))) \<and>
            (max_c = 1 \<and> 0 < n \<longrightarrow>
               (\<exists>x s. rows rep = [(x, s)] \<and> x \<in> set (rows df) \<and>
                  (\<forall>y\<in>set (rows df). key_ge (ts_key x) (ts_key y)) \<and>
                  score_item_with_deepseek svc (strip u)
                    (to_dict (assign_column (columns df) ''_ts'') x) = Inr s))"
  proof (intro allI impI)
    fix sec max_c n u rep
    assume a: "personalization st = Some (YMap sec) \<and>
            py_int (py_get sec ''max_candidates'' (YInt 80)) = Inr max_c \<and>
            py_int (py_get sec ''top_n'' (YInt 10)) = Inr n \<and>
            py_get sec ''user_profile'' (YStr []) = YStr u \<and>
            personalized_recommendations srt api_key svc df st = Inr (Some rep)"
    let ?cands = "select_candidates srt max_c (rows df)"
    let ?fn = "score_item_with_deepseek svc (strip u)"
    let ?f = "to_dict (assign_column (columns df) ''_ts'')"
    from a report_rows [OF assms, of api_key svc df st rep sec max_c n u]
    obtain scores where
      sc: "executor_map ?fn (map ?f ?cands) = Inr scores"
      and len: "length scores = length ?cands"
      and rw: "rows rep = rank_candidates srt n ?cands scores"
      and ne: "rows df \<noteq> []"
      by blast
    have sub: "mset (rows rep) \<subseteq># mset (zip ?cands scores)"
      unfolding rw by (rule mset_rank_candidates [OF assms])
    have fst_zip: "mset (map fst (zip ?cands scores)) = mset ?cands"
      using len by (simp add: map_fst_zip)
    have c1: "\<exists>scores. executor_map ?fn (map ?f ?cands) = Inr scores \<and>
               rows rep = rank_candidates srt n ?cands scores"
      using sc rw by blast
    have c2: "mset (map fst (rows rep)) \<subseteq># mset ?cands"
      using image_mset_subseteq_mono [OF sub, of fst] fst_zip by simp
    have c3: "\<forall>row\<in>set (rows rep). ?fn (?f (fst row)) = Inr (snd row)"
    proof
      fix row assume "row \<in> set (rows rep)"
      then have "(fst row, snd row) \<in> set (zip ?cands scores)"
        using sub by (metis prod.collapse set_mset_mono set_mset_mset subsetD)
      then show "?fn (?f (fst row)) = Inr (snd row)"
        by (rule zip_scores [OF sc])
    qed
    have c4: "int (length ?cands) \<le> n \<longrightarrow> mset (map fst (rows rep)) = mset ?cands"
    proof
      assume "int (length ?cands) \<le> n"
      from rank_candidates_all [OF assms len this] rw
      have "mset (rows rep) = mset (zip ?cands scores)" by simp
      then have "mset (map fst (rows rep)) = mset (map fst (zip ?cands scores))"
        by (metis mset_map)
      with fst_zip show "mset (map fst (rows rep)) = mset ?cands" by simp
    qed
    have c5: "max_c = 1 \<and> 0 < n \<longrightarrow>
               (\<exists>x s. rows rep = [(x, s)] \<and> x \<in> set (rows df) \<and>
                  (\<forall>y\<in>set (rows df). key_ge (ts_key x) (ts_key y)) \<and> ?fn (?f x) = Inr s)"
    proof
      assume m1: "max_c = 1 \<and> 0 < n"
      from newest_only [OF assms ne] m1 obtain x where
        x: "?cands = [x]" "x \<in> set (rows df)" "\<forall>y\<in>set (rows df). key_ge (ts_key x) (ts_key y)"
        by auto
      from len x(1) obtain s where s: "scores = [s]"
        by (cases scores) auto
      have "mset (rows rep) = mset (zip ?cands scores)"
        using rank_candidates_all [OF assms len, of n] m1 x(1) rw by simp
      then have "mset (rows rep) = {#(x, s)#}" using x(1) s by simp
      then have r1: "rows rep = [(x, s)]"
        by (metis mset_single_iff_right mset.simps(1) mset.simps(2) mset_eq_setD
            mset_zero_iff_right single_eq_single size_mset length_0_conv list.exhaust
            add_mset_eq_single)
      then have "?fn (?f x) = Inr s" using c3 by simp
      with r1 x show "\<exists>x s. rows rep = [(x, s)] \<and> x \<in> set (rows df) \<and>
                  (\<forall>y\<in>set (rows df). key_ge (ts_key x) (ts_key y)) \<and> ?fn (?f x) = Inr s"
        by blast
    qed
    from c1 c2 c3 c4 c5
    show "(\<exists>scores.
               executor_map ?fn (map ?f ?cands) = Inr scores \<and>
               rows rep = rank_candidates srt n ?cands scores) \<and>
            mset (map fst (rows rep)) \<subseteq># mset ?cands \<and>
            (\<forall>row\<in>set (rows rep). ?fn (?f (fst row)) = Inr (snd row)) \<and>
            (int (length ?cands) \<le> n \<longrightarrow> mset (map fst (rows rep)) = mset ?cands) \<and>
            (max_c = 1 \<and> 0 < n \<longrightarrow>
               (\<exists>x s. rows rep = [(x, s)] \<and> x \<in> set (rows df) \<and>
                  (\<forall>y\<in>set (rows df). key_ge (ts_key x) (ts_key y)) \<and> ?fn (?f x) = Inr s))"
      by blast
  qed
qed

theorem candidate_selection_witness:
  "argsort_contract argsort_stable \<and>
   select_candidates argsort_stable 1 [row_e, row_c, row_a, row_d, row_b] = [row_a] \<and>
   select_candidates argsort_stable 3 [row_e, row_c, row_a, row_d, row_b]
     = [row_a, row_b, row_c] \<and>
   map ts_key [row_a, row_b, row_c, row_e, row_d]
     = [Some 5000, Some 4000, Some 3000, Some 1000, None] \<and>
   personalized_recommendations argsort_stable (Some ''key'') example_service
     \<lparr>columns = news_columns, rows = [row_e, row_c, row_a, row_d, row_b]\<rparr>
     \<lparr>personalization = Some (YMap [(''enable'', YBool True),
        (''user_profile'', YStr ''likes robots''), (''max_candidates'', YInt 1)]),
      days_window = Some 3\<rparr>
   = Inr (Some \<lparr>columns = news_columns @ [''_ts'', ''_personal_score''],
                 rows = [(row_a, 0)]\<rparr>)"
proof -
  have run: "personalized_recommendations argsort_stable (Some ''key'') example_service
     \<lparr>columns = news_columns, rows = [row_e, row_c, row_a, row_d, row_b]\<rparr>
     \<lparr>personalization = Some (YMap [(''enable'', YBool True),
        (''user_profile'', YStr ''likes robots''), (''max_candidates'', YInt 1)]),
      days_window = Some 3\<rparr>
   = Inr (Some \<lparr>columns = news_columns @ [''_ts'', ''_personal_score''],
                 rows = [(row_a, 0)]\<rparr>)"
    by (simp add: score_defs frame_defs example_defs)
  have sel: "select_candidates argsort_stable 1 [row_e, row_c, row_a, row_d, row_b] = [row_a]"
    "select_candidates argsort_stable 3 [row_e, row_c, row_a, row_d, row_b]
       = [row_a, row_b, row_c]"
    "map ts_key [row_a, row_b, row_c, row_e, row_d]
       = [Some 5000, Some 4000, Some 3000, Some 1000, None]"
    by (simp_all add: select_candidates_def sort_values_def head_def ts_key_def
        effective_ts_def fillna_def argsort_stable_def argsort_by_def key_ge_def example_defs)
  from candidate_selection [OF argsort_stable_contract, of 3
      "[row_e, row_c, row_a, row_d, row_b]"
      "\<lparr>personalization = Some (YMap [(''enable'', YBool True),
        (''user_profile'', YStr ''likes robots''), (''max_candidates'', YInt 1)]),
      days_window = Some 3\<rparr>" "Some ''key''" example_service
      "\<lparr>columns = news_columns, rows = [row_e, row_c, row_a, row_d, row_b]\<rparr>"]
    argsort_stable_contract run sel
  show ?thesis by simp
qed

text \<open>
  C5. Bounded output, for every sort routine that meets the contract and every
  positive \<open>top_n\<close>: the ranking step returns as many rows as the smaller of \<open>top_n\<close>
  and the number of candidates, so never more than \<open>top_n\<close>, none for no candidates
  and all of them, with nothing added, when they are fewer than \<open>top_n\<close>; and a
  report that \<open>personalized_recommendations\<close> returns has that length for the
  candidates it selected.
\<close>

theorem bounded_output:
  assumes "argsort_contract srt" "0 < n"
  shows "(length scores = length candidates \<longrightarrow>
            length (rank_candidates srt n candidates scores) = min (nat n) (length candidates)) \<and>
         (\<forall>sec max_c rep. personalization st = Some (YMap sec) \<and>
            py_int (py_get sec ''top_n'' (YInt 10)) = Inr n \<and>
            py_int (py_get sec ''max_candidates'' (YInt 80)) = Inr max_c \<and>
            personalized_recommendations srt api_key svc df st = Inr (Some rep) \<longrightarrow>
            length (rows rep) = min (nat n) (length (select_candidates srt max_c (rows df))) \<and>
            length (rows rep) \<le> nat n)"
proof (intro conjI allI impI)
  assume "length scores = length candidates"
  with assms show "length (rank_candidates srt n candidates scores) = min (nat n) (length candidates)"
    by (simp add: length_rank_candidates)
next
  fix sec max_c rep
  assume a: "personalization st = Some (YMap sec) \<and>
            py_int (py_get sec ''top_n'' (YInt 10)) = Inr n \<and>
            py_int (py_get sec ''max_candidates'' (YInt 80)) = Inr max_c \<and>
            personalized_recommendations srt api_key svc df st = Inr (Some rep)"
  let ?cands = "select_candidates srt max_c (rows df)"
  from a personalized_recommendations_Some [of srt api_key svc df st rep]
  obtain u where "score_and_rank srt svc (strip u) sec df = Inr (Some rep)" by auto
  from score_and_rank_Some [OF this] a obtain scores where
    sc: "executor_map (score_item_with_deepseek svc (strip u))
           (map (to_dict (assign_column (columns df) ''_ts'')) ?cands) = Inr scores"
    and rep: "rows rep = rank_candidates srt n ?cands scores"
    by auto
  from executor_map_Inr(1) [OF sc] have "length scores = length ?cands" by simp
  with assms rep show "length (rows rep) = min (nat n) (length ?cands)"
    by (simp add: length_rank_candidates)
  then show "length (rows rep) \<le> nat n" by simp
qed

theorem bounded_output_witness:
  "argsort_contract argsort_stable \<and>
   length (rank_candidates argsort_stable 1 [row_b, row_c] [80, 40]) = 1 \<and>
   length (rank_candidates argsort_stable 5 [row_b, row_c] [80, 40]) = 2 \<and>
   personalized_recommendations argsort_stable (Some ''key'') example_service
     \<lparr>columns = news_columns, rows = [row_b, row_c]\<rparr> example_settings
   = Inr (Some \<lparr>columns = news_columns @ [''_ts'', ''_personal_score''],
                 rows = [(row_b, 80)]\<rparr>)"
  using bounded_output [OF argsort_stable_contract, of 1 "[80, 40]" "[row_b, row_c]"
      example_settings "Some ''key''" example_service
      "\<lparr>columns = news_columns, rows = [row_b, row_c]\<rparr>"]
    bounded_output [OF argsort_stable_contract, of 5 "[80, 40]" "[row_b, row_c]"]
    argsort_stable_contract
  by (simp add: score_defs frame_defs example_defs)

subsection \<open>Runs and the seen links\<close>









lemma filter_unseen_subset:
  "set (rows (filter_unseen_items v df seen)) \<subseteq> set (rows df)"
  by (auto simp: filter_unseen_items_def)














subsection \<open>Scoring in the pool\<close>





end
